theory Spec2Isabelle
  imports Complex_Main
begin

section \<open>Numbers, points and errors\<close>

text \<open>
  The Python sources compute with IEEE doubles held in NumPy arrays. This development
  reads every finite float as a real number and every arithmetic operation as the exact
  one, so rounding, NaN and overflow are outside the model. The one non-finite value the
  sources produce on purpose, \<^verbatim>\<open>float('inf')\<close>, is kept: a value of type \<open>'a ext\<close> is
  either a finite number or plus infinity.

  An array of shape (N, 3) is a list of triples, so the dimension 3 is fixed by the type
  and N is the length of the list.
\<close>

type_synonym vec3 = "real \<times> real \<times> real"

datatype 'a ext = Fin 'a | PInf

datatype error =
    RuntimeError string
  | ValueError
  | OverflowError
  | ZeroDivisionError
  | TypeError
  | LinAlgError

text \<open>\<^verbatim>\<open>d <= s\<close> and \<open>d > s\<close> for a possibly infinite \<open>d\<close> and a finite \<open>s\<close>.\<close>

fun ext_le :: "real ext \<Rightarrow> real \<Rightarrow> bool" where
  "ext_le (Fin d) s = (d \<le> s)"
| "ext_le PInf s = False"

fun ext_gt :: "real ext \<Rightarrow> real \<Rightarrow> bool" where
  "ext_gt (Fin d) s = (d > s)"
| "ext_gt PInf s = True"

text \<open>The minimum of two possibly infinite numbers, and \<^verbatim>\<open>np.min\<close> of a non-empty array.\<close>

fun ext_min :: "real ext \<Rightarrow> real ext \<Rightarrow> real ext" where
  "ext_min (Fin a) (Fin b) = Fin (min a b)"
| "ext_min (Fin a) PInf = Fin a"
| "ext_min PInf b = b"

fun np_min :: "real ext list \<Rightarrow> error + real ext" where
  "np_min [] = Inl ValueError"
| "np_min (d # ds) = Inr (fold ext_min ds d)"

text \<open>\<^verbatim>\<open>c > a\<close> for a Python int \<open>c\<close> and an \<open>a\<close> that is an int or \<^verbatim>\<open>float('inf')\<close>.\<close>

fun int_gt_ext :: "int \<Rightarrow> int ext \<Rightarrow> bool" where
  "int_gt_ext c (Fin a) = (c > a)"
| "int_gt_ext c PInf = False"

text \<open>\<^verbatim>\<open>int(r)\<close> on a float truncates towards zero.\<close>

definition py_int :: "real \<Rightarrow> int" where
  "py_int r = (if 0 \<le> r then \<lfloor>r\<rfloor> else \<lceil>r\<rceil>)"

text \<open>\<^verbatim>\<open>a << n\<close> on Python ints: a negative shift count raises ValueError.\<close>

definition py_lshift :: "int \<Rightarrow> int \<Rightarrow> error + int" where
  "py_lshift a n = (if n < 0 then Inl ValueError else Inr (a * 2 ^ nat n))"

text \<open>\<^verbatim>\<open>a / b\<close> on Python floats: a zero divisor raises ZeroDivisionError.\<close>

definition py_truediv :: "real \<Rightarrow> real \<Rightarrow> error + real" where
  "py_truediv a b = (if b = 0 then Inl ZeroDivisionError else Inr (a / b))"

text \<open>\<^verbatim>\<open>math.sqrt(r)\<close>: a negative argument raises ValueError (math domain error).\<close>

definition py_sqrt :: "real \<Rightarrow> error + real" where
  "py_sqrt r = (if r < 0 then Inl ValueError else Inr (sqrt r))"

text \<open>\<^verbatim>\<open>range(0, stop, step)\<close> for a positive step.\<close>

definition py_range0 :: "int \<Rightarrow> int \<Rightarrow> int list" where
  "py_range0 stop step = filter (\<lambda>i. i mod step = 0) [0 .. stop - 1]"

text \<open>A \<^verbatim>\<open>for\<close> loop whose body may raise: the first error ends the loop.\<close>

fun for_each :: "('a \<Rightarrow> 's \<Rightarrow> error + 's) \<Rightarrow> 'a list \<Rightarrow> 's \<Rightarrow> error + 's" where
  "for_each body [] s = Inr s"
| "for_each body (x # xs) s =
     (case body x s of Inl e \<Rightarrow> Inl e | Inr s' \<Rightarrow> for_each body xs s')"

lemma for_each_cong [fundef_cong]:
  assumes "xs = ys" and "s = t"
    and "\<And>x u. x \<in> set ys \<Longrightarrow> f x u = g x u"
  shows "for_each f xs s = for_each g ys t"
  using assms(3) unfolding assms(1,2)
proof (induction ys arbitrary: t)
  case Nil
  show ?case by simp
next
  case (Cons y ys)
  have "f y t = g y t" using Cons.prems by simp
  moreover have "for_each f ys u = for_each g ys u" for u
    using Cons.IH Cons.prems by simp
  ultimately show ?case by (simp split: sum.splits)
qed

text \<open>A parameter dictionary and \<^verbatim>\<open>params.get(key, default)\<close>.\<close>

type_synonym params = "string \<rightharpoonup> real"

definition params_get :: "params \<Rightarrow> string \<Rightarrow> real \<Rightarrow> real" where
  "params_get p k d = (case p k of None \<Rightarrow> d | Some v \<Rightarrow> v)"

section \<open>spatial\_utils.py\<close>

text \<open>
  \<^verbatim>\<open>SpatialUtils\<close> wraps SciPy's \<^verbatim>\<open>cKDTree\<close>. The tree is modelled by the point list
  it was built from, and \<^verbatim>\<open>tree.query(q, k=1)\<close> by its documented result: the Euclidean
  distance to the closest indexed point and that point's index (the first one among
  equally close points), or an infinite distance and the index N when the tree holds
  no point.
\<close>

definition euclid :: "vec3 \<Rightarrow> vec3 \<Rightarrow> real" where
  "euclid p q =
     (case p of (px, py, pz) \<Rightarrow> case q of (qx, qy, qz) \<Rightarrow>
        sqrt ((px - qx)\<^sup>2 + (py - qy)\<^sup>2 + (pz - qz)\<^sup>2))"

fun nearest_from :: "vec3 \<Rightarrow> vec3 list \<Rightarrow> nat \<Rightarrow> real \<times> nat \<Rightarrow> real \<times> nat" where
  "nearest_from q [] i best = best"
| "nearest_from q (v # vs) i best =
     nearest_from q vs (Suc i) (if euclid q v < fst best then (euclid q v, i) else best)"

fun tree_query :: "vec3 list \<Rightarrow> vec3 \<Rightarrow> real ext \<times> nat" where
  "tree_query [] q = (PInf, 0)"
| "tree_query (v # vs) q =
     (case nearest_from q vs 1 (euclid q v, 0) of (d, i) \<Rightarrow> (Fin d, i))"

record SpatialUtils =
  tree :: "vec3 list"

definition SpatialUtils_init :: "vec3 list \<Rightarrow> SpatialUtils" where
  "SpatialUtils_init vertices = \<lparr> tree = vertices \<rparr>"

definition find_nearest :: "SpatialUtils \<Rightarrow> vec3 list \<Rightarrow> real ext list \<times> nat list" where
  "find_nearest sp query_points =
     (let res = map (tree_query (tree sp)) query_points
      in (map fst res, map snd res))"

definition filter_points_by_distance ::
  "SpatialUtils \<Rightarrow> vec3 list \<Rightarrow> real \<Rightarrow> vec3 list \<times> bool list" where
  "filter_points_by_distance sp query_points max_distance =
     (let distances = fst (find_nearest sp query_points);
          mask = map (\<lambda>d. ext_le d max_distance) distances
      in (map fst (filter snd (zip query_points mask)), mask))"

section \<open>field\_generator.py\<close>

text \<open>
  The generator's state is the record below. Its methods print progress and read the
  clock; neither has an effect on a value, and both are left out. When a method raises,
  the model gives the exception and not the state the object is left in.
\<close>

record FieldGenerator =
  spatial :: SpatialUtils
  base_spacing :: real
  surface_dist :: real
  max_dist :: real
  min_dist :: real
  density_falloff :: real
  inv_max_min_diff :: real
  spacing_cache :: "real \<rightharpoonup> int"
  generated_points :: "vec3 list"

definition FieldGenerator_init :: "SpatialUtils \<Rightarrow> params \<Rightarrow> error + FieldGenerator" where
  "FieldGenerator_init spatial_utils ps =
     (let bs = params_get ps ''base_grid_spacing'' 0.02;
          sd = params_get ps ''surface_distance'' 0.1;
          mx = params_get ps ''max_distance'' 0.2;
          mn = params_get ps ''min_distance'' 0.005;
          df = params_get ps ''density_falloff'' 3.0
      in case (if mx > mn then py_truediv 1.0 (mx - mn) else Inr 1.0) of
           Inl e \<Rightarrow> Inl e
         | Inr inv_diff \<Rightarrow>
             Inr \<lparr> spatial = spatial_utils, base_spacing = bs, surface_dist = sd,
                   max_dist = mx, min_dist = mn, density_falloff = df,
                   inv_max_min_diff = inv_diff, spacing_cache = Map.empty,
                   generated_points = [] \<rparr>)"

fun get_adaptive_spacing :: "FieldGenerator \<Rightarrow> real ext \<Rightarrow> error + int ext" where
  "get_adaptive_spacing g PInf = Inr PInf"
| "get_adaptive_spacing g (Fin distance) =
     (if distance \<le> min_dist g then Inr (Fin 0)
      else if distance > surface_dist g then Inr PInf
      else
        let normalized_dist = (distance - min_dist g) * inv_max_min_diff g;
            normalized_dist = min 1.0 (max 0.0 normalized_dist)
        in case py_sqrt normalized_dist of Inl e \<Rightarrow> Inl e | Inr rt \<Rightarrow>
          (let power = rt * density_falloff g;
               level = py_int (power + 1)
           in case py_lshift 1 level of Inl e \<Rightarrow> Inl e | Inr n \<Rightarrow> Inr (Fin n)))"


text \<open>The eight combinations of the loops \<^verbatim>\<open>for dx in [0, 1]: for dy ...: for dz ...\<close>.\<close>

definition offsets :: "(int \<times> int \<times> int) list" where
  "offsets = concat (map (\<lambda>dx. concat (map (\<lambda>dy. map (\<lambda>dz. (dx, dy, dz)) [0, 1]) [0, 1])) [0, 1])"

definition corner :: "FieldGenerator \<Rightarrow> vec3 \<Rightarrow> int \<Rightarrow> int \<times> int \<times> int \<Rightarrow> vec3" where
  "corner g start cell_size d =
     (case start of (x_start, y_start, z_start) \<Rightarrow> case d of (dx, dy, dz) \<Rightarrow>
        (x_start + of_int dx * of_int cell_size * base_spacing g,
         y_start + of_int dy * of_int cell_size * base_spacing g,
         z_start + of_int dz * of_int cell_size * base_spacing g))"

definition center :: "FieldGenerator \<Rightarrow> vec3 \<Rightarrow> int \<Rightarrow> vec3" where
  "center g start cell_size =
     (case start of (x_start, y_start, z_start) \<Rightarrow>
        (x_start + (of_int cell_size * base_spacing g) / 2,
         y_start + (of_int cell_size * base_spacing g) / 2,
         z_start + (of_int cell_size * base_spacing g) / 2))"

text \<open>
  \<^verbatim>\<open>_process_cell\<close>. The list \<open>pts\<close> is \<^verbatim>\<open>self.generated_points\<close>, the only attribute the
  method writes; the result is that list after the call, or the exception raised.
\<close>

function process_cell ::
  "FieldGenerator \<Rightarrow> vec3 \<Rightarrow> int \<Rightarrow> int \<Rightarrow> int \<Rightarrow> vec3 list \<Rightarrow> error + vec3 list" where
  "process_cell g start cell_size level max_level pts =
     (let check_points = map (corner g start cell_size) offsets;
          dists = fst (find_nearest (spatial g) check_points)
      in case np_min dists of Inl e \<Rightarrow> Inl e | Inr min_dist_in_cell \<Rightarrow>
         (if ext_gt min_dist_in_cell (surface_dist g) then Inr pts
         else (case get_adaptive_spacing g min_dist_in_cell of Inl e \<Rightarrow> Inl e
           | Inr adaptive_spacing \<Rightarrow>
             if int_gt_ext cell_size adaptive_spacing \<and> level < max_level then
               (let half_size = cell_size div 2
                in if half_size > 0 then
                     for_each (\<lambda>d acc. process_cell g (corner g start half_size d)
                                                  half_size (level + 1) max_level acc)
                              offsets pts
                   else Inr pts)
             else
               (let c = center g start cell_size;
                    dist = fst (find_nearest (spatial g) [c])
                in if ext_le (hd dist) (surface_dist g) then Inr (pts @ [c]) else Inr pts))))"
  by pat_completeness auto
termination
  by (relation "measure (\<lambda>(g, start, cell_size, level, max_level, pts). nat cell_size)") auto

text \<open>The start points of the root cells, in the order of the three nested loops.\<close>

definition root_cells :: "vec3 \<Rightarrow> real \<Rightarrow> int \<Rightarrow> int \<Rightarrow> int \<Rightarrow> int \<Rightarrow> vec3 list" where
  "root_cells start_coords bs steps_x steps_y steps_z initial_cell_size =
     (case start_coords of (sx, sy, sz) \<Rightarrow>
        concat (map (\<lambda>z. concat (map (\<lambda>y. map (\<lambda>x.
          (sx + of_int x * bs, sy + of_int y * bs, sz + of_int z * bs))
          (py_range0 steps_x initial_cell_size))
          (py_range0 steps_y initial_cell_size)))
          (py_range0 steps_z initial_cell_size)))"

text \<open>
  \<^verbatim>\<open>int(ceil(d / self.base_spacing)) + 1\<close> for a NumPy float \<open>d\<close>: dividing by zero gives
  an infinity or NaN, which \<^verbatim>\<open>ceil\<close> rejects.
\<close>

definition steps :: "real \<Rightarrow> real \<Rightarrow> error + int" where
  "steps d bs =
     (if bs = 0 then (if d = 0 then Inl ValueError else Inl OverflowError)
      else Inr (\<lceil>d / bs\<rceil> + 1))"

definition generate ::
  "FieldGenerator \<Rightarrow> vec3 \<Rightarrow> vec3 \<Rightarrow> error + (vec3 list \<times> FieldGenerator)" where
  "generate g0 bounds_min bounds_max =
     (let g = g0\<lparr> generated_points := [], spacing_cache := Map.empty \<rparr>;
          max_level = py_int (density_falloff g + 1)
      in case py_lshift 1 max_level of Inl e \<Rightarrow> Inl e | Inr initial_cell_size \<Rightarrow>
        (case bounds_min of (lx, ly, lz) \<Rightarrow>
        (case bounds_max of (hx, hy, hz) \<Rightarrow>
        (case steps (hx - lx) (base_spacing g) of Inl e \<Rightarrow> Inl e | Inr steps_x \<Rightarrow>
        (case steps (hy - ly) (base_spacing g) of Inl e \<Rightarrow> Inl e | Inr steps_y \<Rightarrow>
        (case steps (hz - lz) (base_spacing g) of Inl e \<Rightarrow> Inl e | Inr steps_z \<Rightarrow>
        (case for_each (\<lambda>start acc. process_cell g start initial_cell_size 0 max_level acc)
                (root_cells bounds_min (base_spacing g) steps_x steps_y steps_z
                   initial_cell_size)
                (generated_points g) of
           Inl e \<Rightarrow> Inl e
         | Inr pts \<Rightarrow> Inr (pts, g\<lparr> generated_points := pts \<rparr>))))))))"

section \<open>rbf\_core.py\<close>

text \<open>
  \<^verbatim>\<open>np.linalg.solve\<close> and \<^verbatim>\<open>np.linalg.lstsq\<close> belong to NumPy, not to this
  repository, so the solver takes them as a parameter. \<open>solve L A b\<close> is the solution
  NumPy returns or the exception it raises (LinAlgError for a singular matrix);
  \<open>lstsq L A b\<close> is the first component of the tuple \<^verbatim>\<open>lstsq\<close> returns, the
  least-squares solution, which exists for every system in exact arithmetic.
\<close>

record linalg =
  solve :: "real list list \<Rightarrow> vec3 list \<Rightarrow> error + vec3 list"
  lstsq :: "real list list \<Rightarrow> vec3 list \<Rightarrow> vec3 list"

definition vadd :: "vec3 \<Rightarrow> vec3 \<Rightarrow> vec3" where
  "vadd p q = (case p of (px, py, pz) \<Rightarrow> case q of (qx, qy, qz) \<Rightarrow> (px + qx, py + qy, pz + qz))"

definition vsub :: "vec3 \<Rightarrow> vec3 \<Rightarrow> vec3" where
  "vsub p q = (case p of (px, py, pz) \<Rightarrow> case q of (qx, qy, qz) \<Rightarrow> (px - qx, py - qy, pz - qz))"

definition vscale :: "real \<Rightarrow> vec3 \<Rightarrow> vec3" where
  "vscale a q = (case q of (qx, qy, qz) \<Rightarrow> (a * qx, a * qy, a * qz))"

text \<open>One row of \<^verbatim>\<open>np.dot(M, W)\<close>: the sum of the rows of \<open>W\<close> scaled by the entries of the row.\<close>

fun dot_row :: "real list \<Rightarrow> vec3 list \<Rightarrow> vec3" where
  "dot_row (a # as) (v # vs) = vadd (vscale a v) (dot_row as vs)"
| "dot_row _ _ = (0, 0, 0)"

definition mat_vec :: "real list list \<Rightarrow> vec3 list \<Rightarrow> vec3 list" where
  "mat_vec M W = map (\<lambda>r. dot_row r W) M"

definition eye :: "nat \<Rightarrow> real list list" where
  "eye n = map (\<lambda>i. map (\<lambda>j. if i = j then 1 else 0) [0..<n]) [0..<n]"

definition mat_scale :: "real list list \<Rightarrow> real \<Rightarrow> real list list" where
  "mat_scale M c = map (map (\<lambda>a. a * c)) M"

definition mat_add :: "real list list \<Rightarrow> real list list \<Rightarrow> real list list" where
  "mat_add M K = map2 (map2 (+)) M K"

definition cdist :: "vec3 list \<Rightarrow> vec3 list \<Rightarrow> real list list" where
  "cdist xs ys = map (\<lambda>x. map (\<lambda>y. euclid x y) ys) xs"

text \<open>The matrix \<^verbatim>\<open>P\<close> of rows (1, x, y, z), and its transpose (four rows, also for N = 0).\<close>

definition poly_matrix :: "vec3 list \<Rightarrow> real list list" where
  "poly_matrix pts = map (\<lambda>p. case p of (x, y, z) \<Rightarrow> [1, x, y, z]) pts"

definition poly_matrix_T :: "vec3 list \<Rightarrow> real list list" where
  "poly_matrix_T pts =
     [map (\<lambda>p. 1) pts, map (\<lambda>p. fst p) pts, map (\<lambda>p. fst (snd p)) pts,
      map (\<lambda>p. snd (snd p)) pts]"

text \<open>
  \<^verbatim>\<open>target_points - source_points\<close> with NumPy's broadcasting: equal row counts subtract
  row by row, a single target row is subtracted from every source row. Any other pair of
  row counts raises ValueError, at the subtraction or (for a single source row) at the
  assignment \<^verbatim>\<open>b[:num_pts] = displacements\<close>.
\<close>

definition displacements_of :: "vec3 list \<Rightarrow> vec3 list \<Rightarrow> error + vec3 list" where
  "displacements_of target_points source_points =
     (if length target_points = length source_points
        then Inr (map2 vsub target_points source_points)
      else if length target_points = 1
        then Inr (map (vsub (hd target_points)) source_points)
      else Inl ValueError)"

record RBFCore =
  epsilon :: real
  smoothing :: real
  weights :: "vec3 list option"
  polynomial_weights :: "vec3 list option"
  control_points :: "vec3 list option"

definition RBFCore_init :: "real \<Rightarrow> real \<Rightarrow> RBFCore" where
  "RBFCore_init eps smooth =
     \<lparr> epsilon = eps, smoothing = smooth, weights = None, polynomial_weights = None,
       control_points = None \<rparr>"

text \<open>
  \<^verbatim>\<open>predict\<close> below rejects what NumPy rejects: \<^verbatim>\<open>cdist\<close> without control points,
  and \<^verbatim>\<open>np.dot\<close> with operands whose shapes do not match (the kernel matrix has one
  column per control point, the matrix \<open>P\<close> has four columns).
\<close>

definition kernel_func :: "RBFCore \<Rightarrow> real \<Rightarrow> real" where
  "kernel_func s r = sqrt (r\<^sup>2 + (epsilon s)\<^sup>2)"

text \<open>The kernel matrix \<open>phi\<close> of \<^verbatim>\<open>fit\<close>, with the smoothing added to its diagonal.\<close>

definition fit_phi :: "RBFCore \<Rightarrow> vec3 list \<Rightarrow> real list list" where
  "fit_phi s source_points =
     (let num_pts = length source_points;
          dists = cdist source_points source_points;
          phi = map (map (kernel_func s)) dists
      in if smoothing s > 0 then mat_add phi (mat_scale (eye num_pts) (smoothing s)) else phi)"

text \<open>The system matrix \<open>A\<close>: the blocks \<open>phi\<close> and \<open>P\<close> above the blocks \<open>P.T\<close> and zero.\<close>

definition system_matrix :: "RBFCore \<Rightarrow> vec3 list \<Rightarrow> real list list" where
  "system_matrix s source_points =
     map2 (@) (fit_phi s source_points) (poly_matrix source_points)
     @ map (\<lambda>r. r @ replicate 4 0) (poly_matrix_T source_points)"

definition rhs :: "vec3 list \<Rightarrow> vec3 list" where
  "rhs displacements = displacements @ replicate 4 (0, 0, 0)"

text \<open>The matrix \<^verbatim>\<open>A + reg\<close> of the fallback, \<open>reg\<close> being \<^verbatim>\<open>np.eye(A.shape[0]) * 1e-6\<close>.\<close>

definition regularized :: "real list list \<Rightarrow> real list list" where
  "regularized A = mat_add A (mat_scale (eye (length A)) (1 / 1000000))"

definition fit :: "linalg \<Rightarrow> RBFCore \<Rightarrow> vec3 list \<Rightarrow> vec3 list \<Rightarrow> error + RBFCore" where
  "fit L s source_points target_points =
     (case displacements_of target_points source_points of Inl e \<Rightarrow> Inl e
      | Inr displacements \<Rightarrow>
        (let num_pts = length source_points;
             A = system_matrix s source_points;
             b = rhs displacements;
             store = (\<lambda>x. Inr (s\<lparr> control_points := Some source_points,
                                    weights := Some (take num_pts x),
                                    polynomial_weights := Some (drop num_pts x) \<rparr>))
         in case solve L A b of
              Inr x \<Rightarrow> store x
            | Inl e \<Rightarrow> if e = LinAlgError then store (lstsq L (regularized A) b) else Inl e))"

definition predict :: "RBFCore \<Rightarrow> vec3 list \<Rightarrow> error + (vec3 list \<times> vec3 list)" where
  "predict s mesh_vertices =
     (case weights s of
        None \<Rightarrow> Inl (RuntimeError ''RBF weights not computed. Call fit() first.'')
      | Some w \<Rightarrow>
        (case control_points s of None \<Rightarrow> Inl ValueError
         | Some cp \<Rightarrow>
           (let dists = cdist mesh_vertices cp;
                phi = map (map (kernel_func s)) dists;
                P = poly_matrix mesh_vertices
            in if length w \<noteq> length cp then Inl ValueError
               else (case polynomial_weights s of None \<Rightarrow> Inl TypeError
                 | Some pw \<Rightarrow>
                   if length pw \<noteq> 4 then Inl ValueError
                   else (let displacements = map2 vadd (mat_vec phi w) (mat_vec P pw);
                             deformed_vertices = map2 vadd mesh_vertices displacements
                         in Inr (deformed_vertices, displacements))))))"

section \<open>deformation\_pipeline.py\<close>

text \<open>
  The attributes \<^verbatim>\<open>epsilon\<close> and \<^verbatim>\<open>smoothing\<close> of the pipeline are the fields
  \<open>rbf_epsilon\<close> and \<open>rbf_smoothing\<close> here, named after their dictionary keys, since the
  solver's record already has fields of those names.
\<close>

record DeformationPipeline =
  params :: params
  rbf_epsilon :: real
  rbf_smoothing :: real

definition DeformationPipeline_init :: "params \<Rightarrow> DeformationPipeline" where
  "DeformationPipeline_init ps =
     \<lparr> params = ps, rbf_epsilon = params_get ps ''rbf_epsilon'' 0.5,
       rbf_smoothing = params_get ps ''rbf_smoothing'' 0.0 \<rparr>"

text \<open>\<^verbatim>\<open>np.min(a, axis=0)\<close> and \<^verbatim>\<open>np.max(a, axis=0)\<close>: an empty array raises ValueError.\<close>

fun np_min_axis0 :: "vec3 list \<Rightarrow> error + vec3" where
  "np_min_axis0 [] = Inl ValueError"
| "np_min_axis0 (p # ps) =
     Inr (fold (\<lambda>q m. (min (fst m) (fst q), min (fst (snd m)) (fst (snd q)),
                         min (snd (snd m)) (snd (snd q)))) ps p)"

fun np_max_axis0 :: "vec3 list \<Rightarrow> error + vec3" where
  "np_max_axis0 [] = Inl ValueError"
| "np_max_axis0 (p # ps) =
     Inr (fold (\<lambda>q m. (max (fst m) (fst q), max (fst (snd m)) (fst (snd q)),
                         max (snd (snd m)) (snd (snd q)))) ps p)"

record field_data =
  field_points :: "vec3 list"
  field_displacements :: "vec3 list"

text \<open>The box of \<^verbatim>\<open>bake_field\<close>: the bounding box of the points, padded by the margin.\<close>

definition padded_bounds :: "DeformationPipeline \<Rightarrow> vec3 list \<Rightarrow> error + (vec3 \<times> vec3)" where
  "padded_bounds pl source_verts_basis =
     (case np_min_axis0 source_verts_basis of Inl e \<Rightarrow> Inl e | Inr bounds_min \<Rightarrow>
     (case np_max_axis0 source_verts_basis of Inl e \<Rightarrow> Inl e | Inr bounds_max \<Rightarrow>
       (let margin = params_get (params pl) ''bbox_margin'' 0.1
        in Inr (vsub bounds_min (margin, margin, margin),
                vadd bounds_max (margin, margin, margin)))))"

text \<open>Step 1 of \<^verbatim>\<open>bake_field\<close>: the field points of the generator built over the points.\<close>

definition bake_points :: "DeformationPipeline \<Rightarrow> vec3 list \<Rightarrow> error + vec3 list" where
  "bake_points pl source_verts_basis =
     (case padded_bounds pl source_verts_basis of Inl e \<Rightarrow> Inl e
      | Inr (bounds_min, bounds_max) \<Rightarrow>
       (let spatial = SpatialUtils_init source_verts_basis
        in case FieldGenerator_init spatial (params pl) of Inl e \<Rightarrow> Inl e
           | Inr generator \<Rightarrow>
             (case generate generator bounds_min bounds_max of Inl e \<Rightarrow> Inl e
              | Inr (points, generator') \<Rightarrow> Inr points)))"

definition bake_field ::
  "linalg \<Rightarrow> DeformationPipeline \<Rightarrow> vec3 list \<Rightarrow> vec3 list \<Rightarrow> error + field_data" where
  "bake_field L pl source_verts_basis source_verts_deformed =
     (case bake_points pl source_verts_basis of Inl e \<Rightarrow> Inl e
      | Inr points \<Rightarrow>
        if length points = 0
          then Inl (RuntimeError ''No field points generated. Check params or mesh size.'')
        else
          (let rbf_1 = RBFCore_init (rbf_epsilon pl) (rbf_smoothing pl)
           in case fit L rbf_1 source_verts_basis source_verts_deformed of Inl e \<Rightarrow> Inl e
              | Inr rbf_1 \<Rightarrow>
                (case predict rbf_1 points of Inl e \<Rightarrow> Inl e
                 | Inr (deformed, displacements) \<Rightarrow>
                     Inr \<lparr> field_points = points,
                           field_displacements = displacements \<rparr>)))"

section \<open>The contract of the NumPy routines, and example inputs\<close>

text \<open>A square matrix: as many entries in each row as there are rows.\<close>

definition square :: "real list list \<Rightarrow> bool" where
  "square A = (\<forall>r \<in> set A. length r = length A)"

text \<open>
  What NumPy documents for a square \<open>A\<close> of shape (n, n) and a \<open>b\<close> of shape (n, 3): the
  least-squares solution has shape (n, 3); \<^verbatim>\<open>solve\<close> returns a solution of shape (n, 3)
  or raises LinAlgError.
\<close>

definition numpy_contract :: "linalg \<Rightarrow> bool" where
  "numpy_contract L =
     (\<forall>A b. square A \<and> length b = length A \<longrightarrow>
        length (lstsq L A b) = length A \<and>
        (\<forall>x. solve L A b = Inr x \<longrightarrow> length x = length A) \<and>
        (\<forall>e. solve L A b = Inl e \<longrightarrow> e = LinAlgError))"


text \<open>
  A stand-in for NumPy, used to instantiate the theorems at concrete inputs. Its
  \<open>solve\<close> knows one candidate solution: it returns the candidate when the candidate
  solves the system and reports a singular matrix otherwise. Its \<open>lstsq\<close> returns the
  zero matrix of the right shape.
\<close>

definition candidate_linalg :: "vec3 list \<Rightarrow> linalg" where
  "candidate_linalg x0 =
     \<lparr> solve = (\<lambda>A b. if length x0 = length A \<and> mat_vec A x0 = b then Inr x0
                        else Inl LinAlgError),
       lstsq = (\<lambda>A b. replicate (length A) (0, 0, 0)) \<rparr>"

text \<open>
  A parameter dictionary with a grid unit of 1, and the generator the constructor builds
  from it over the single surface point (1/2, 1/2, 1/2).
\<close>

definition example_params :: params where
  "example_params =
     Map.empty(''base_grid_spacing'' \<mapsto> 1, ''surface_distance'' \<mapsto> 1,
       ''max_distance'' \<mapsto> 0, ''min_distance'' \<mapsto> 0, ''density_falloff'' \<mapsto> 0,
       ''bbox_margin'' \<mapsto> 1 / 2)"

definition example_generator :: FieldGenerator where
  "example_generator =
     \<lparr> spatial = \<lparr> tree = [(1 / 2, 1 / 2, 1 / 2)] \<rparr>, base_spacing = 1, surface_dist = 1,
       max_dist = 0, min_dist = 0, density_falloff = 0, inv_max_min_diff = 1,
       spacing_cache = Map.empty, generated_points = [] \<rparr>"

text \<open>The same dictionary with a surface distance of 0, which no grid point meets.\<close>

definition narrow_params :: params where
  "narrow_params = example_params(''surface_distance'' \<mapsto> 0)"

text \<open>The four corners of a tetrahedron, and the same corners moved by (1, 0, 0).\<close>

definition tetra_source :: "vec3 list" where
  "tetra_source = [(0, 0, 0), (1, 0, 0), (0, 1, 0), (0, 0, 1)]"

definition tetra_target :: "vec3 list" where
  "tetra_target = [(1, 0, 0), (2, 0, 0), (1, 1, 0), (1, 0, 1)]"

text \<open>
  The solution of the tetrahedron's system: no radial weights, and the translation
  (1, 0, 0) as the constant polynomial term.
\<close>

definition tetra_solution :: "vec3 list" where
  "tetra_solution =
     [(0, 0, 0), (0, 0, 0), (0, 0, 0), (0, 0, 0), (1, 0, 0), (0, 0, 0), (0, 0, 0), (0, 0, 0)]"

text \<open>The point is within reach: its reported nearest-surface distance is at most \<open>surface_dist\<close>.\<close>

definition in_reach :: "FieldGenerator \<Rightarrow> vec3 \<Rightarrow> bool" where
  "in_reach g p = ext_le (hd (fst (find_nearest (spatial g) [p]))) (surface_dist g)"

declare process_cell.simps [simp del]

section \<open>Properties of the field generator's spacing function\<close>

lemma FieldGenerator_init_total:
  "FieldGenerator_init sp ps =
     Inr \<lparr> spatial = sp,
           base_spacing = params_get ps ''base_grid_spacing'' 0.02,
           surface_dist = params_get ps ''surface_distance'' 0.1,
           max_dist = params_get ps ''max_distance'' 0.2,
           min_dist = params_get ps ''min_distance'' 0.005,
           density_falloff = params_get ps ''density_falloff'' 3.0,
           inv_max_min_diff =
             (if params_get ps ''max_distance'' 0.2 > params_get ps ''min_distance'' 0.005
              then 1 / (params_get ps ''max_distance'' 0.2 - params_get ps ''min_distance'' 0.005)
              else 1),
           spacing_cache = Map.empty, generated_points = [] \<rparr>"
  by (simp add: FieldGenerator_init_def Let_def py_truediv_def)











section \<open>Properties of the spatial index\<close>

lemma nearest_from_fst:
  "fst (nearest_from q vs i best) = fold min (map (euclid q) vs) (fst best)"
proof (induction vs arbitrary: i best)
  case Nil
  show ?case by simp
next
  case (Cons v vs)
  show ?case by (simp add: Cons.IH min_def)
qed

text \<open>Over a non-empty tree the reported distance is the least distance to an indexed point.\<close>

lemma tree_query_Min:
  assumes "vs \<noteq> []"
  shows "fst (tree_query vs q) = Fin (Min (euclid q ` set vs))"
proof -
  obtain v ws where vs: "vs = v # ws" using assms by (cases vs) auto
  have "fst (tree_query vs q) = Fin (fold min (map (euclid q) ws) (euclid q v))"
    unfolding vs by (simp add: split_beta nearest_from_fst)
  also have "fold min (map (euclid q) ws) (euclid q v) = Min (set (map (euclid q) vs))"
    unfolding vs using Min.set_eq_fold[of "euclid q v" "map (euclid q) ws"] by simp
  finally show ?thesis by simp
qed

lemma filter_by_mask: "map fst (filter snd (zip qs (map P qs))) = filter P qs"
  by (induction qs) auto

lemma find_nearest_distances:
  "fst (find_nearest sp qs) = map (\<lambda>q. fst (tree_query (tree sp) q)) qs"
  by (simp add: find_nearest_def Let_def)

text \<open>
  Claim C7. Over an index of at least one point, for every list of query points and
  every threshold, \<open>filter_points_by_distance\<close> returns (1) the query points whose least
  distance to an indexed point is at most the threshold, in their original order, and
  (2) a mask as long as the query list whose i-th entry says whether query point i is
  within the threshold; a query point farther away than the threshold is not returned.
\<close>

theorem filter_points_by_distance_correct:
  assumes "tree sp \<noteq> []"
  shows "filter_points_by_distance sp qs m =
           (filter (\<lambda>q. Min (euclid q ` set (tree sp)) \<le> m) qs,
            map (\<lambda>q. Min (euclid q ` set (tree sp)) \<le> m) qs)
    \<and> length (snd (filter_points_by_distance sp qs m)) = length qs
    \<and> (\<forall>i < length qs. snd (filter_points_by_distance sp qs m) ! i
            \<longleftrightarrow> Min (euclid (qs ! i) ` set (tree sp)) \<le> m)
    \<and> (\<forall>q \<in> set qs. Min (euclid q ` set (tree sp)) > m
            \<longrightarrow> q \<notin> set (fst (filter_points_by_distance sp qs m)))"
proof -
  let ?P = "\<lambda>q. Min (euclid q ` set (tree sp)) \<le> m"
  have m: "map (\<lambda>d. ext_le d m) (fst (find_nearest sp qs)) = map ?P qs"
    by (simp add: find_nearest_distances tree_query_Min[OF assms])
  have eq: "filter_points_by_distance sp qs m = (filter ?P qs, map ?P qs)"
    unfolding filter_points_by_distance_def Let_def m by (simp add: filter_by_mask)
  have "length (snd (filter_points_by_distance sp qs m)) = length qs"
    unfolding eq by simp
  moreover have "\<forall>i < length qs. snd (filter_points_by_distance sp qs m) ! i
            \<longleftrightarrow> Min (euclid (qs ! i) ` set (tree sp)) \<le> m"
    unfolding eq by simp
  moreover have "\<forall>q \<in> set qs. Min (euclid q ` set (tree sp)) > m
            \<longrightarrow> q \<notin> set (fst (filter_points_by_distance sp qs m))"
    unfolding eq by auto
  ultimately show ?thesis using eq by blast
qed

text \<open>
  The theorem over the single indexed point (0, 0, 0), with the threshold 1: the query
  point (0, 2, 0) at distance 2 is dropped, the query point (1, 0, 0) at distance 1 is kept.
\<close>

theorem filter_points_by_distance_witness:
  "tree \<lparr> tree = [(0, 0, 0)] \<rparr> \<noteq> []
   \<and> filter_points_by_distance \<lparr> tree = [(0, 0, 0)] \<rparr> [(0, 2, 0), (1, 0, 0)] 1
       = ([(1, 0, 0)], [False, True])"
  using filter_points_by_distance_correct[of "\<lparr> tree = [(0, 0, 0)] \<rparr>"
      "[(0, 2, 0), (1, 0, 0)]" 1]
  by (simp add: euclid_def)

section \<open>Properties of the field generator's output\<close>

lemma for_each_invariant:
  assumes "for_each body xs s = Inr s'" and "P s"
    and "\<And>x u u'. x \<in> set xs \<Longrightarrow> P u \<Longrightarrow> body x u = Inr u' \<Longrightarrow> P u'"
  shows "P s'"
  using assms
proof (induction xs arbitrary: s)
  case Nil
  then show ?case by simp
next
  case (Cons x xs)
  from Cons.prems(1) obtain t where t: "body x s = Inr t" and r: "for_each body xs t = Inr s'"
    by (auto split: sum.splits)
  have "P t" using Cons.prems(3)[of x s t] Cons.prems(2) t by simp
  then show ?case using Cons.IH[OF r] Cons.prems(3) by auto
qed

text \<open>A cell adds only points within reach to the points generated so far.\<close>

lemma process_cell_in_reach:
  "process_cell g start cell_size level max_level pts = Inr pts' \<Longrightarrow>
   \<forall>p \<in> set pts. in_reach g p \<Longrightarrow> \<forall>p \<in> set pts'. in_reach g p"
proof (induction g start cell_size level max_level pts arbitrary: pts' rule: process_cell.induct)
  case (1 g start cell_size level max_level pts)
  note eq = process_cell.simps[of g start cell_size level max_level pts, unfolded Let_def]
  note res = "1.prems"(1) and inv = "1.prems"(2)
  let ?dists = "fst (find_nearest (spatial g) (map (corner g start cell_size) offsets))"
  show ?case
  proof (cases "np_min ?dists")
    case (Inl e)
    with res eq show ?thesis by simp
  next
    case (Inr b)
    note b = this
    show ?thesis
    proof (cases "ext_gt b (surface_dist g)")
      case True
      with res eq b inv show ?thesis by simp
    next
      case far: False
      show ?thesis
      proof (cases "get_adaptive_spacing g b")
        case (Inl e)
        with res eq b far show ?thesis by simp
      next
        case (Inr ba)
        note ba = this
        show ?thesis
        proof (cases "int_gt_ext cell_size ba \<and> level < max_level")
          case split: True
          show ?thesis
          proof (cases "0 < cell_size div 2")
            case half: True
            have fe: "for_each (\<lambda>d acc. process_cell g (corner g start (cell_size div 2) d)
                         (cell_size div 2) (level + 1) max_level acc) offsets pts = Inr pts'"
              using res eq b far ba split half by simp
            show ?thesis
            proof (rule for_each_invariant[OF fe, where P = "\<lambda>ps. \<forall>p \<in> set ps. in_reach g p"])
              show "\<forall>p \<in> set pts. in_reach g p" by (rule inv)
            next
              fix d u u'
              assume "d \<in> set offsets" and "\<forall>p \<in> set u. in_reach g p"
                and "process_cell g (corner g start (cell_size div 2) d)
                       (cell_size div 2) (level + 1) max_level u = Inr u'"
              then show "\<forall>p \<in> set u'. in_reach g p"
                using "1.IH"[OF refl refl b far ba split refl half] by blast
            qed
          next
            case False
            with res eq b far ba split inv show ?thesis by simp
          qed
        next
          case False
          with res eq b far ba inv show ?thesis
            by (auto simp: in_reach_def split: if_splits)
        qed
      qed
    qed
  qed
qed

text \<open>The example generator emits the centre (1, 1, 1) of its single root cell.\<close>

lemma example_init:
  "FieldGenerator_init \<lparr> tree = [(1 / 2, 1 / 2, 1 / 2)] \<rparr> example_params
     = Inr example_generator"
  by (simp add: FieldGenerator_init_total params_get_def example_generator_def
      example_params_def)

lemma example_cell:
  "process_cell example_generator (0, 0, 0) 2 0 1 [] = Inr [(1, 1, 1)]"
  by (subst process_cell.simps)
     (simp add: example_generator_def offsets_def corner_def center_def find_nearest_def
        euclid_def Let_def py_sqrt_def py_int_def py_lshift_def power2_eq_square)

lemma py_range0_example: "py_range0 2 2 = [0]"
  by (simp add: py_range0_def upto.simps)

lemma example_generate:
  "generate example_generator (0, 0, 0) (1, 1, 1) =
     Inr ([(1, 1, 1)], example_generator\<lparr> generated_points := [(1, 1, 1)] \<rparr>)"
proof -
  have e: "example_generator\<lparr> generated_points := [], spacing_cache := Map.empty \<rparr>
           = example_generator" by (simp add: example_generator_def)
  have f: "density_falloff example_generator = 0" "base_spacing example_generator = 1"
    "generated_points example_generator = []"
    by (simp_all add: example_generator_def)
  show ?thesis
    unfolding generate_def Let_def e
    by (simp add: f py_int_def py_lshift_def steps_def root_cells_def py_range0_example
        example_cell)
qed

text \<open>
  Claim C4. Every point \<open>generate\<close> returns has a nearest-surface distance, as the
  generator's own spatial index reports it for that point, of at most
  \<open>surface_distance\<close>; this holds for every generator (so for every parameter setting)
  and every pair of bounds.
\<close>

theorem generate_within_surface_distance:
  assumes "generate g bounds_min bounds_max = Inr (pts, g')"
  shows "\<forall>p \<in> set pts. ext_le (hd (fst (find_nearest (spatial g) [p]))) (surface_dist g)"
proof -
  let ?g = "g\<lparr> generated_points := [], spacing_cache := Map.empty \<rparr>"
  obtain cells ics ml where fe:
    "for_each (\<lambda>start acc. process_cell ?g start ics 0 ml acc) cells [] = Inr pts"
    using assms unfolding generate_def Let_def
    by (auto split: sum.splits prod.splits)
  have "\<forall>p \<in> set pts. in_reach ?g p"
  proof (rule for_each_invariant[OF fe, where P = "\<lambda>ps. \<forall>p \<in> set ps. in_reach ?g p"])
    show "\<forall>p \<in> set []. in_reach ?g p" by simp
  next
    fix x u u'
    assume "\<forall>p \<in> set u. in_reach ?g p" and "process_cell ?g x ics 0 ml u = Inr u'"
    then show "\<forall>p \<in> set u'. in_reach ?g p" using process_cell_in_reach by blast
  qed
  then show ?thesis by (simp add: in_reach_def)
qed

text \<open>
  The theorem at the example generator over the box from (0, 0, 0) to (1, 1, 1): the
  one point returned, (1, 1, 1), is reported within \<open>surface_distance = 1\<close> of the
  surface point (1/2, 1/2, 1/2).
\<close>

theorem generate_within_surface_distance_witness:
  "generate example_generator (0, 0, 0) (1, 1, 1)
     = Inr ([(1, 1, 1)], example_generator\<lparr> generated_points := [(1, 1, 1)] \<rparr>)
   \<and> ext_le (hd (fst (find_nearest (spatial example_generator) [(1, 1, 1)])))
        (surface_dist example_generator)"
  using generate_within_surface_distance[OF example_generate] example_generate by simp

lemma generate_reset:
  "generate (g\<lparr> generated_points := old, spacing_cache := cache \<rparr>) lo hi = generate g lo hi"
  by (simp add: generate_def)

lemma generate_reset_points:
  "generate (g\<lparr> generated_points := old \<rparr>) lo hi = generate g lo hi"
  by (simp add: generate_def)

lemma generate_state:
  assumes "generate g lo hi = Inr (pts, g')"
  shows "g' = g\<lparr> generated_points := pts, spacing_cache := Map.empty \<rparr>"
  using assms unfolding generate_def Let_def
  by (auto split: sum.splits prod.splits)

text \<open>
  Claim C9. \<open>generate\<close> starts from an empty output list: the points an instance holds
  from an earlier call do not affect the result, a second call with the same bounds
  returns the same points and leaves the same instance, and a later call with any bounds
  returns what the instance would have returned before the first call. The call changes
  the attribute \<open>generated_points\<close> and nothing else (it also resets the cache
  \<open>spacing_cache\<close>, which is empty from the constructor on and never filled).
\<close>

theorem generate_resets_output:
  assumes "generate g lo hi = Inr (pts, g')"
  shows "generate g' lo hi = Inr (pts, g')
    \<and> (\<forall>old. generate (g\<lparr> generated_points := old \<rparr>) lo hi = Inr (pts, g'))
    \<and> (\<forall>lo' hi'. generate g' lo' hi' = generate g lo' hi')
    \<and> g' = g\<lparr> generated_points := pts, spacing_cache := Map.empty \<rparr>
    \<and> (spacing_cache g = Map.empty \<longrightarrow> g' = g\<lparr> generated_points := pts \<rparr>)"
proof -
  note st = generate_state[OF assms]
  have later: "generate g' lo' hi' = generate g lo' hi'" for lo' hi'
    unfolding st by (rule generate_reset)
  have "generate g' lo hi = Inr (pts, g')"
    using later assms by simp
  moreover have "\<forall>old. generate (g\<lparr> generated_points := old \<rparr>) lo hi = Inr (pts, g')"
    using assms by (simp add: generate_reset_points)
  moreover have "spacing_cache g = Map.empty \<longrightarrow> g' = g\<lparr> generated_points := pts \<rparr>"
    unfolding st by auto
  ultimately show ?thesis using later st by blast
qed

text \<open>
  The theorem at the example generator: the call returns the point (1, 1, 1), and the
  call on the instance it leaves returns that point again, not two points.
\<close>

theorem generate_resets_output_witness:
  "generate example_generator (0, 0, 0) (1, 1, 1)
     = Inr ([(1, 1, 1)], example_generator\<lparr> generated_points := [(1, 1, 1)] \<rparr>)
   \<and> generate (example_generator\<lparr> generated_points := [(1, 1, 1)] \<rparr>) (0, 0, 0) (1, 1, 1)
     = Inr ([(1, 1, 1)], example_generator\<lparr> generated_points := [(1, 1, 1)] \<rparr>)"
  using generate_resets_output[OF example_generate] example_generate by simp

section \<open>Properties of the RBF solver\<close>

lemma numpy_contract_lstsq:
  "numpy_contract L \<Longrightarrow> square A \<Longrightarrow> length b = length A
     \<Longrightarrow> length (lstsq L A b) = length A"
  unfolding numpy_contract_def by blast

lemma numpy_contract_solve:
  "numpy_contract L \<Longrightarrow> square A \<Longrightarrow> length b = length A \<Longrightarrow> solve L A b = Inr x
     \<Longrightarrow> length x = length A"
  unfolding numpy_contract_def by blast

lemma numpy_contract_error:
  "numpy_contract L \<Longrightarrow> square A \<Longrightarrow> length b = length A \<Longrightarrow> solve L A b = Inl e
     \<Longrightarrow> e = LinAlgError"
  unfolding numpy_contract_def by blast

lemma candidate_contract: "numpy_contract (candidate_linalg x0)"
  by (simp add: numpy_contract_def candidate_linalg_def)


lemma length_fit_phi: "length (fit_phi s src) = length src"
  by (simp add: fit_phi_def Let_def cdist_def mat_add_def mat_scale_def eye_def)

lemma rows_fit_phi: "r \<in> set (fit_phi s src) \<Longrightarrow> length r = length src"
  by (auto simp: fit_phi_def Let_def cdist_def mat_add_def mat_scale_def eye_def
      set_zip split: if_splits)

lemma length_poly_matrix: "length (poly_matrix pts) = length pts"
  by (simp add: poly_matrix_def)

lemma rows_poly_matrix: "r \<in> set (poly_matrix pts) \<Longrightarrow> length r = 4"
  by (auto simp: poly_matrix_def)

lemma length_system_matrix: "length (system_matrix s src) = length src + 4"
  by (simp add: system_matrix_def length_fit_phi length_poly_matrix poly_matrix_T_def)

text \<open>The system matrix has N + 4 rows of N + 4 entries.\<close>

lemma square_system_matrix: "square (system_matrix s src)"
  unfolding square_def length_system_matrix
proof
  fix r assume "r \<in> set (system_matrix s src)"
  then consider (top) "r \<in> set (map2 (@) (fit_phi s src) (poly_matrix src))"
    | (bot) "r \<in> set (map (\<lambda>r. r @ replicate 4 0) (poly_matrix_T src))"
    by (auto simp: system_matrix_def)
  then show "length r = length src + 4"
  proof cases
    case top
    then obtain a b where "r = a @ b" "a \<in> set (fit_phi s src)" "b \<in> set (poly_matrix src)"
      by (auto dest: set_zip_leftD set_zip_rightD)
    then show ?thesis using rows_fit_phi rows_poly_matrix by simp
  next
    case bot
    then show ?thesis by (auto simp: poly_matrix_T_def)
  qed
qed

lemma length_regularized: "length (regularized A) = length A"
  by (simp add: regularized_def mat_add_def mat_scale_def eye_def)

lemma square_regularized: "square A \<Longrightarrow> square (regularized A)"
  unfolding square_def length_regularized
  by (auto simp: regularized_def mat_add_def mat_scale_def eye_def set_zip)

lemma length_rhs: "length (rhs d) = length d + 4"
  by (simp add: rhs_def)

lemma displacements_equal_length:
  "length tgt = length src \<Longrightarrow> displacements_of tgt src = Inr (map2 vsub tgt src)"
  by (simp add: displacements_of_def)

lemma fit_unfold:
  assumes "length tgt = length src"
  shows "fit L s src tgt =
    (case solve L (system_matrix s src) (rhs (map2 vsub tgt src)) of
       Inr x \<Rightarrow> Inr (s\<lparr> control_points := Some src, weights := Some (take (length src) x),
                       polynomial_weights := Some (drop (length src) x) \<rparr>)
     | Inl e \<Rightarrow> if e = LinAlgError
         then Inr (s\<lparr> control_points := Some src,
                weights := Some (take (length src)
                   (lstsq L (regularized (system_matrix s src)) (rhs (map2 vsub tgt src)))),
                polynomial_weights := Some (drop (length src)
                   (lstsq L (regularized (system_matrix s src)) (rhs (map2 vsub tgt src)))) \<rparr>)
         else Inl e)"
  by (simp add: fit_def displacements_equal_length[OF assms] Let_def)

text \<open>The stand-in library without a candidate reports every system of \<open>fit\<close> as singular.\<close>

lemma candidate_nil_singular:
  "solve (candidate_linalg []) (system_matrix s src) b = Inl LinAlgError"
proof -
  have "system_matrix s src \<noteq> []"
    using length_system_matrix[of s src] by auto
  then show ?thesis by (simp add: candidate_linalg_def)
qed

lemma fit_candidate_nil:
  assumes "length tgt = length src"
  shows "fit (candidate_linalg []) s src tgt =
           Inr (s\<lparr> control_points := Some src,
                   weights := Some (replicate (length src) (0, 0, 0)),
                   polynomial_weights := Some (replicate 4 (0, 0, 0)) \<rparr>)"
proof -
  have "lstsq (candidate_linalg []) (regularized (system_matrix s src)) b
          = replicate (length src + 4) (0, 0, 0)" for b
    by (simp add: candidate_linalg_def length_regularized length_system_matrix)
  then show ?thesis
    unfolding fit_unfold[OF assms] candidate_nil_singular
    by (simp add: replicate_add)
qed

text \<open>
  With the documented shapes, fitting point sets of equal length always completes: the
  solver stores the first N and the last 4 rows of a solution \<open>x\<close> of N + 4 rows, which
  is the least-squares solution of the regularized system when the direct solve raised.
\<close>

lemma fit_completes:
  assumes "numpy_contract L" and "length tgt = length src"
  shows "\<exists>x. length x = length src + 4
           \<and> fit L s src tgt =
                 Inr (s\<lparr> control_points := Some src, weights := Some (take (length src) x),
                         polynomial_weights := Some (drop (length src) x) \<rparr>)
           \<and> (solve L (system_matrix s src) (rhs (map2 vsub tgt src)) = Inl LinAlgError
                  \<longrightarrow> x = lstsq L (regularized (system_matrix s src))
                                      (rhs (map2 vsub tgt src)))"
proof -
  let ?A = "system_matrix s src" and ?b = "rhs (map2 vsub tgt src)"
  let ?x = "lstsq L (regularized ?A) ?b"
  let ?n = "length src"
  have lb: "length ?b = length ?A"
    by (simp add: length_rhs length_system_matrix assms(2))
  have lx: "length ?x = ?n + 4"
    using numpy_contract_lstsq[OF assms(1) square_regularized[OF square_system_matrix],
        of ?b s src] lb
    by (simp add: length_regularized length_system_matrix)
  note fu = fit_unfold[OF assms(2), of L s]
  show ?thesis
  proof (cases "solve L ?A ?b")
    case (Inr x)
    have "length x = ?n + 4"
      using numpy_contract_solve[OF assms(1) square_system_matrix lb Inr]
      by (simp add: length_system_matrix)
    then show ?thesis
      unfolding fu Inr by (intro exI[of _ x]) simp
  next
    case (Inl e)
    have e: "e = LinAlgError"
      using numpy_contract_error[OF assms(1) square_system_matrix lb Inl] .
    show ?thesis
      unfolding fu Inl e using lx by (intro exI[of _ ?x]) simp
  qed
qed



lemma vadd_zero [simp]: "vadd v (0, 0, 0) = v" "vadd (0, 0, 0) v = v"
  by (simp_all add: vadd_def split_beta)







lemma kernel_func_update [simp]:
  "kernel_func (s\<lparr> control_points := c, weights := w, polynomial_weights := p \<rparr>)
     = kernel_func s"
  by (simp add: kernel_func_def fun_eq_iff)

lemma tetra_system:
  "mat_vec (system_matrix (RBFCore_init 1 0) tetra_source) tetra_solution
     = rhs (map2 vsub tetra_target tetra_source)"
  by (simp add: mat_vec_def system_matrix_def fit_phi_def Let_def cdist_def poly_matrix_def
      poly_matrix_T_def RBFCore_init_def tetra_source_def tetra_target_def tetra_solution_def
      rhs_def vsub_def vadd_def vscale_def eval_nat_numeral)

lemma tetra_solve:
  "solve (candidate_linalg tetra_solution) (system_matrix (RBFCore_init 1 0) tetra_source)
     (rhs (map2 vsub tetra_target tetra_source)) = Inr tetra_solution"
  by (simp add: candidate_linalg_def tetra_system)
     (simp add: length_system_matrix tetra_source_def tetra_solution_def)

lemma tetra_fit:
  "fit (candidate_linalg tetra_solution) (RBFCore_init 1 0) tetra_source tetra_target
     = Inr ((RBFCore_init 1 0)\<lparr> control_points := Some tetra_source,
              weights := Some [(0, 0, 0), (0, 0, 0), (0, 0, 0), (0, 0, 0)],
              polynomial_weights := Some [(1, 0, 0), (0, 0, 0), (0, 0, 0), (0, 0, 0)] \<rparr>)"
proof -
  have l: "length tetra_target = length tetra_source"
    by (simp add: tetra_source_def tetra_target_def)
  show ?thesis
    unfolding fit_unfold[OF l] tetra_solve
    by (simp add: tetra_source_def tetra_solution_def)
qed



text \<open>
  Claim C6. \<open>predict\<close> on a solver that was never fitted (its weights are absent, as the
  constructor leaves them) raises RuntimeError with the message
  \<^verbatim>\<open>RBF weights not computed. Call fit() first.\<close>; on the solver a successful \<open>fit\<close>
  leaves, \<open>predict\<close> raises no RuntimeError for any query.
\<close>

theorem predict_unfitted:
  "predict (RBFCore_init eps sm) q
     = Inl (RuntimeError ''RBF weights not computed. Call fit() first.'')
   \<and> (weights s = None \<longrightarrow>
        predict s q = Inl (RuntimeError ''RBF weights not computed. Call fit() first.''))
   \<and> (fit L s0 src tgt = Inr s1 \<longrightarrow> (\<forall>msg. predict s1 q \<noteq> Inl (RuntimeError msg)))"
proof -
  have "weights s1 \<noteq> None" if "fit L s0 src tgt = Inr s1"
    using that unfolding fit_def Let_def
    by (auto split: sum.splits if_splits)
  then have "\<forall>msg. predict s1 q \<noteq> Inl (RuntimeError msg)" if "fit L s0 src tgt = Inr s1"
    using that unfolding predict_def Let_def
    by (auto split: option.splits)
  then show ?thesis
    by (simp add: predict_def RBFCore_init_def)
qed

text \<open>
  The theorem at a fresh solver, and at the solver fitted to the tetrahedron: the first
  raises the error at the query (5, 5, 5), the second does not.
\<close>

theorem predict_unfitted_witness:
  "weights (RBFCore_init 1 0) = None
   \<and> predict (RBFCore_init 1 0) [(5, 5, 5)]
       = Inl (RuntimeError ''RBF weights not computed. Call fit() first.'')
   \<and> fit (candidate_linalg tetra_solution) (RBFCore_init 1 0) tetra_source tetra_target
       = Inr ((RBFCore_init 1 0)\<lparr> control_points := Some tetra_source,
                weights := Some [(0, 0, 0), (0, 0, 0), (0, 0, 0), (0, 0, 0)],
                polynomial_weights := Some [(1, 0, 0), (0, 0, 0), (0, 0, 0), (0, 0, 0)] \<rparr>)
   \<and> predict ((RBFCore_init 1 0)\<lparr> control_points := Some tetra_source,
                weights := Some [(0, 0, 0), (0, 0, 0), (0, 0, 0), (0, 0, 0)],
                polynomial_weights := Some [(1, 0, 0), (0, 0, 0), (0, 0, 0), (0, 0, 0)] \<rparr>)
        [(5, 5, 5)]
       \<noteq> Inl (RuntimeError ''RBF weights not computed. Call fit() first.'')"
  using predict_unfitted[of 1 0 "[(5, 5, 5)]" "RBFCore_init 1 0"
      "candidate_linalg tetra_solution" "RBFCore_init 1 0" tetra_source tetra_target
      "(RBFCore_init 1 0)\<lparr> control_points := Some tetra_source,
                weights := Some [(0, 0, 0), (0, 0, 0), (0, 0, 0), (0, 0, 0)],
                polynomial_weights := Some [(1, 0, 0), (0, 0, 0), (0, 0, 0), (0, 0, 0)] \<rparr>"]
    tetra_fit
  by (simp add: RBFCore_init_def)

lemma system_matrix_config:
  assumes "epsilon s = epsilon t" and "smoothing s = smoothing t"
  shows "system_matrix s src = system_matrix t src"
proof -
  have "kernel_func s = kernel_func t"
    by (simp add: kernel_func_def fun_eq_iff assms(1))
  then show ?thesis
    by (simp add: system_matrix_def fit_phi_def Let_def assms(2))
qed

text \<open>
  Claim C8. \<open>fit\<close> is a function of the solver's configuration and its two arguments:
  two solvers with the same \<open>epsilon\<close> and \<open>smoothing\<close>, fitted to the same points, end
  with the same weights, polynomial weights and control points (or raise the same
  error); and fitting a solver a second time to the same points leaves it as the first
  fit left it.
\<close>

theorem fit_deterministic:
  "(epsilon s = epsilon t \<and> smoothing s = smoothing t \<longrightarrow>
      (\<forall>s'. fit L s src tgt = Inr s' \<longrightarrow>
         (\<exists>t'. fit L t src tgt = Inr t' \<and> weights t' = weights s'
               \<and> polynomial_weights t' = polynomial_weights s'
               \<and> control_points t' = control_points s'))
      \<and> (\<forall>e. fit L s src tgt = Inl e \<longrightarrow> fit L t src tgt = Inl e))
   \<and> (\<forall>s1. fit L s src tgt = Inr s1 \<longrightarrow> fit L s1 src tgt = Inr s1)"
proof -
  have same: "(\<forall>s'. fit L s src tgt = Inr s' \<longrightarrow>
         (\<exists>t'. fit L t src tgt = Inr t' \<and> weights t' = weights s'
               \<and> polynomial_weights t' = polynomial_weights s'
               \<and> control_points t' = control_points s'))
      \<and> (\<forall>e. fit L s src tgt = Inl e \<longrightarrow> fit L t src tgt = Inl e)"
    if "epsilon s = epsilon t" and "smoothing s = smoothing t"
    unfolding fit_def Let_def system_matrix_config[OF that]
    by (auto split: sum.splits if_splits)
  have again: "fit L s1 src tgt = Inr s1" if f: "fit L s src tgt = Inr s1" for s1
  proof -
    have c: "epsilon s1 = epsilon s" "smoothing s1 = smoothing s"
      using f unfolding fit_def Let_def by (auto split: sum.splits if_splits)
    show ?thesis
      using f unfolding fit_def Let_def system_matrix_config[OF c]
      by (auto split: sum.splits if_splits)
  qed
  show ?thesis using same again by blast
qed

text \<open>
  The theorem at the tetrahedron, for a fresh solver and the solver its fit leaves (both
  with \<open>epsilon = 1\<close> and no smoothing): fitting either to the same points gives the
  same solver.
\<close>

theorem fit_deterministic_witness:
  "epsilon (RBFCore_init 1 0)
     = epsilon ((RBFCore_init 1 0)\<lparr> control_points := Some tetra_source,
                weights := Some [(0, 0, 0), (0, 0, 0), (0, 0, 0), (0, 0, 0)],
                polynomial_weights := Some [(1, 0, 0), (0, 0, 0), (0, 0, 0), (0, 0, 0)] \<rparr>)
   \<and> smoothing (RBFCore_init 1 0)
     = smoothing ((RBFCore_init 1 0)\<lparr> control_points := Some tetra_source,
                weights := Some [(0, 0, 0), (0, 0, 0), (0, 0, 0), (0, 0, 0)],
                polynomial_weights := Some [(1, 0, 0), (0, 0, 0), (0, 0, 0), (0, 0, 0)] \<rparr>)
   \<and> fit (candidate_linalg tetra_solution) (RBFCore_init 1 0) tetra_source tetra_target
       = Inr ((RBFCore_init 1 0)\<lparr> control_points := Some tetra_source,
                weights := Some [(0, 0, 0), (0, 0, 0), (0, 0, 0), (0, 0, 0)],
                polynomial_weights := Some [(1, 0, 0), (0, 0, 0), (0, 0, 0), (0, 0, 0)] \<rparr>)
   \<and> fit (candidate_linalg tetra_solution)
         ((RBFCore_init 1 0)\<lparr> control_points := Some tetra_source,
                weights := Some [(0, 0, 0), (0, 0, 0), (0, 0, 0), (0, 0, 0)],
                polynomial_weights := Some [(1, 0, 0), (0, 0, 0), (0, 0, 0), (0, 0, 0)] \<rparr>)
         tetra_source tetra_target
       = Inr ((RBFCore_init 1 0)\<lparr> control_points := Some tetra_source,
                weights := Some [(0, 0, 0), (0, 0, 0), (0, 0, 0), (0, 0, 0)],
                polynomial_weights := Some [(1, 0, 0), (0, 0, 0), (0, 0, 0), (0, 0, 0)] \<rparr>)"
  using fit_deterministic[of "RBFCore_init 1 0"
      "(RBFCore_init 1 0)\<lparr> control_points := Some tetra_source,
                weights := Some [(0, 0, 0), (0, 0, 0), (0, 0, 0), (0, 0, 0)],
                polynomial_weights := Some [(1, 0, 0), (0, 0, 0), (0, 0, 0), (0, 0, 0)] \<rparr>"
      "candidate_linalg tetra_solution" tetra_source tetra_target] tetra_fit
  by simp

section \<open>Properties of the bake stage\<close>

lemma predict_fitted:
  assumes "weights s = Some w" and "control_points s = Some cp"
    and "polynomial_weights s = Some p" and "length w = length cp" and "length p = 4"
  shows "\<exists>moved disp. predict s q = Inr (moved, disp)"
  using assms by (simp add: predict_def Let_def)

lemma example_bounds:
  "padded_bounds (DeformationPipeline_init example_params) [(1 / 2, 1 / 2, 1 / 2)]
     = Inr ((0, 0, 0), (1, 1, 1))"
  by (simp add: padded_bounds_def DeformationPipeline_init_def example_params_def
      params_get_def vsub_def vadd_def)

lemma narrow_bounds:
  "padded_bounds (DeformationPipeline_init narrow_params) [(1 / 2, 1 / 2, 1 / 2)]
     = Inr ((0, 0, 0), (1, 1, 1))"
  by (simp add: padded_bounds_def DeformationPipeline_init_def example_params_def
      narrow_params_def params_get_def vsub_def vadd_def)

lemma narrow_init:
  "FieldGenerator_init \<lparr> tree = [(1 / 2, 1 / 2, 1 / 2)] \<rparr> narrow_params
     = Inr (example_generator\<lparr> surface_dist := 0 \<rparr>)"
  by (simp add: FieldGenerator_init_total params_get_def example_generator_def
      example_params_def narrow_params_def)

lemma narrow_cell:
  "process_cell (example_generator\<lparr> surface_dist := 0 \<rparr>) (0, 0, 0) 2 0 1 [] = Inr []"
  by (subst process_cell.simps)
     (simp add: example_generator_def offsets_def corner_def find_nearest_def
        euclid_def Let_def power2_eq_square)

lemma narrow_generate:
  "generate (example_generator\<lparr> surface_dist := 0 \<rparr>) (0, 0, 0) (1, 1, 1) =
     Inr ([], example_generator\<lparr> surface_dist := 0 \<rparr>)"
proof -
  have e: "example_generator\<lparr> surface_dist := 0, generated_points := [],
             spacing_cache := Map.empty \<rparr> = example_generator\<lparr> surface_dist := 0 \<rparr>"
    by (simp add: example_generator_def)
  have f: "density_falloff (example_generator\<lparr> surface_dist := 0 \<rparr>) = 0"
    "base_spacing (example_generator\<lparr> surface_dist := 0 \<rparr>) = 1"
    "generated_points (example_generator\<lparr> surface_dist := 0 \<rparr>) = []"
    by (simp_all add: example_generator_def)
  have g: "(example_generator\<lparr> surface_dist := 0 \<rparr>)\<lparr> generated_points := [] \<rparr>
             = example_generator\<lparr> surface_dist := 0 \<rparr>"
    by (simp add: example_generator_def)
  show ?thesis
    unfolding generate_def Let_def e
    by (simp add: f g py_int_def py_lshift_def steps_def root_cells_def py_range0_example
        narrow_cell)
qed

lemma example_predict:
  "predict ((RBFCore_init (1 / 2) 0)\<lparr> control_points := Some [(1 / 2, 1 / 2, 1 / 2)],
               weights := Some (replicate (length [(1 / 2, 1 / 2, 1 / 2) :: vec3]) (0, 0, 0)),
               polynomial_weights := Some (replicate 4 (0, 0, 0)) \<rparr>) [(1, 1, 1)]
     = Inr ([(1, 1, 1)], [(0, 0, 0)])"
  by (simp add: predict_def Let_def cdist_def mat_vec_def poly_matrix_def vscale_def
      vadd_def eval_nat_numeral)

text \<open>
  Claim C5. Let the generator built over \<open>source_basis\<close> return the points \<open>pts\<close> for
  the bounding box of \<open>source_basis\<close> padded by the margin. If \<open>pts\<close> is empty,
  \<open>bake_field\<close> raises RuntimeError (\<^verbatim>\<open>No field points generated...\<close>). If \<open>pts\<close> is not
  empty (and the two point sets have equal length, NumPy keeping to its documented
  shapes), \<open>bake_field\<close> returns the record of exactly \<open>field_points = pts\<close> and
  \<open>field_displacements\<close>, the displacements that the solver fitted to
  \<open>source_basis\<close> and \<open>source_deformed\<close> predicts at \<open>pts\<close>.
\<close>

theorem bake_field_result:
  assumes "padded_bounds pl basis = Inr (lo, hi)"
    and "FieldGenerator_init (SpatialUtils_init basis) (params pl) = Inr gen"
    and "generate gen lo hi = Inr (pts, gen')"
  shows "(pts = [] \<longrightarrow>
            bake_field L pl basis deformed
              = Inl (RuntimeError ''No field points generated. Check params or mesh size.''))
    \<and> (pts \<noteq> [] \<and> numpy_contract L \<and> length deformed = length basis \<longrightarrow>
         (\<exists>rbf moved disp.
            fit L (RBFCore_init (rbf_epsilon pl) (rbf_smoothing pl)) basis deformed = Inr rbf
            \<and> predict rbf pts = Inr (moved, disp)
            \<and> bake_field L pl basis deformed
                = Inr \<lparr> field_points = pts, field_displacements = disp \<rparr>))"
proof -
  have bp: "bake_points pl basis = Inr pts"
    using assms by (simp add: bake_points_def Let_def)
  have empty: "bake_field L pl basis deformed
              = Inl (RuntimeError ''No field points generated. Check params or mesh size.'')"
    if "pts = []"
    using that by (simp add: bake_field_def bp)
  have full: "\<exists>rbf moved disp.
            fit L (RBFCore_init (rbf_epsilon pl) (rbf_smoothing pl)) basis deformed = Inr rbf
            \<and> predict rbf pts = Inr (moved, disp)
            \<and> bake_field L pl basis deformed
                = Inr \<lparr> field_points = pts, field_displacements = disp \<rparr>"
    if ne: "pts \<noteq> []" and c: "numpy_contract L" and l: "length deformed = length basis"
  proof -
    let ?s = "RBFCore_init (rbf_epsilon pl) (rbf_smoothing pl)"
    from fit_completes[OF c l, of ?s] obtain x where
      lx: "length x = length basis + 4"
      and f: "fit L ?s basis deformed =
            Inr (?s\<lparr> control_points := Some basis,
                    weights := Some (take (length basis) x),
                    polynomial_weights := Some (drop (length basis) x) \<rparr>)"
      by blast
    let ?rbf = "?s\<lparr> control_points := Some basis,
                    weights := Some (take (length basis) x),
                    polynomial_weights := Some (drop (length basis) x) \<rparr>"
    obtain moved disp where pr: "predict ?rbf pts = Inr (moved, disp)"
      using predict_fitted[of ?rbf "take (length basis) x" basis
          "drop (length basis) x" pts] lx by auto
    have "bake_field L pl basis deformed
            = Inr \<lparr> field_points = pts, field_displacements = disp \<rparr>"
      using ne by (simp add: bake_field_def bp Let_def f pr)
    with f pr show ?thesis by blast
  qed
  show ?thesis using empty full by blast
qed

text \<open>
  The theorem at the single point (1/2, 1/2, 1/2) moved to (3/2, 1/2, 1/2). With the
  example parameters the generator returns the point (1, 1, 1) and \<open>bake_field\<close>
  returns a record for it (the stand-in library's zero weights give a zero
  displacement); with a surface distance of 0 the generator returns no point and
  \<open>bake_field\<close> raises the error.
\<close>

theorem bake_field_result_witness:
  "padded_bounds (DeformationPipeline_init example_params) [(1 / 2, 1 / 2, 1 / 2)]
     = Inr ((0, 0, 0), (1, 1, 1))
   \<and> FieldGenerator_init (SpatialUtils_init [(1 / 2, 1 / 2, 1 / 2)])
        (params (DeformationPipeline_init example_params)) = Inr example_generator
   \<and> generate example_generator (0, 0, 0) (1, 1, 1)
       = Inr ([(1, 1, 1)], example_generator\<lparr> generated_points := [(1, 1, 1)] \<rparr>)
   \<and> numpy_contract (candidate_linalg [])
   \<and> length [(3 / 2, 1 / 2, 1 / 2) :: vec3] = length [(1 / 2, 1 / 2, 1 / 2) :: vec3]
   \<and> bake_field (candidate_linalg []) (DeformationPipeline_init example_params)
        [(1 / 2, 1 / 2, 1 / 2)] [(3 / 2, 1 / 2, 1 / 2)]
       = Inr \<lparr> field_points = [(1, 1, 1)], field_displacements = [(0, 0, 0)] \<rparr>
   \<and> generate (example_generator\<lparr> surface_dist := 0 \<rparr>) (0, 0, 0) (1, 1, 1)
       = Inr ([], example_generator\<lparr> surface_dist := 0 \<rparr>)
   \<and> bake_field (candidate_linalg []) (DeformationPipeline_init narrow_params)
        [(1 / 2, 1 / 2, 1 / 2)] [(3 / 2, 1 / 2, 1 / 2)]
       = Inl (RuntimeError ''No field points generated. Check params or mesh size.'')"
proof -
  let ?pl = "DeformationPipeline_init example_params"
  let ?basis = "[(1 / 2, 1 / 2, 1 / 2)] :: vec3 list"
  let ?deformed = "[(3 / 2, 1 / 2, 1 / 2)] :: vec3 list"
  have i: "FieldGenerator_init (SpatialUtils_init ?basis) (params ?pl) = Inr example_generator"
    using example_init by (simp add: SpatialUtils_init_def DeformationPipeline_init_def)
  have i': "FieldGenerator_init (SpatialUtils_init ?basis)
              (params (DeformationPipeline_init narrow_params))
            = Inr (example_generator\<lparr> surface_dist := 0 \<rparr>)"
    using narrow_init by (simp add: SpatialUtils_init_def DeformationPipeline_init_def)
  have l: "length ?deformed = length ?basis" by simp
  have c: "rbf_epsilon ?pl = 1 / 2" "rbf_smoothing ?pl = 0"
    by (simp_all add: DeformationPipeline_init_def example_params_def params_get_def)
  have "bake_field (candidate_linalg []) ?pl ?basis ?deformed
          = Inr \<lparr> field_points = [(1, 1, 1)], field_displacements = [(0, 0, 0)] \<rparr>"
    using bake_field_result[OF example_bounds i example_generate,
        of "candidate_linalg []" ?deformed]
      candidate_contract[of "[]"] fit_candidate_nil[OF l, of "RBFCore_init (1 / 2) 0"]
      example_predict
    by (simp add: c)
  moreover have "bake_field (candidate_linalg []) (DeformationPipeline_init narrow_params)
        ?basis ?deformed
       = Inl (RuntimeError ''No field points generated. Check params or mesh size.'')"
    using bake_field_result[OF narrow_bounds i' narrow_generate,
        of "candidate_linalg []" ?deformed]
    by simp
  ultimately show ?thesis
    using example_bounds i example_generate narrow_generate candidate_contract by simp
qed

end
